theory Spec2Isabelle
  imports Main
begin

section \<open>Valley Farm 3D: the farm state machine of \<open>src/App.tsx\<close>\<close>

text \<open>
  The game state lives in one React state cell (\<open>useState<GameState>\<close>). Four kinds of
  click change it: a tool button, a farm plot, a crop, and the "next day" button. Each handler
  is embedded below as a function on \<open>GameState\<close>. JavaScript numbers that hold integers
  (day, gold, energy, stage, grid coordinates, the millisecond clock) are modelled as \<open>int\<close>.
\<close>

subsection \<open>Data model\<close>

datatype Tool = hoe | water | seed | harvest

datatype CropType = carrot | tomato | corn | turnip

datatype Season = Spring | Summer | Fall | Winter

text \<open>
  \<open>interface CropData\<close>. The fields \<open>id\<close>, \<open>x\<close>, \<open>z\<close> and \<open>type\<close> are prefixed with
  \<open>crop_\<close>, since the bare names are taken in HOL.
\<close>

record CropData =
  crop_id :: string
  crop_x :: int
  crop_z :: int
  crop_type :: CropType
  stage :: int
  plantedDay :: int

text \<open>
  \<open>interface GameState\<close>. The field \<open>season\<close> is an option: \<open>nextDay\<close> reads it from an
  array by a computed index, and a JavaScript array read outside the array gives
  \<open>undefined\<close>, here \<open>None\<close>. \<open>tiledPlots\<close> is a \<open>Set<string>\<close> of plot keys.
\<close>

record GameState =
  day :: int
  season :: "Season option"
  gold :: int
  energy :: int
  selectedTool :: Tool
  crops :: "CropData list"
  tiledPlots :: "string set"

text \<open>\<open>const CROP_PRICES\<close>.\<close>

fun CROP_PRICES :: "CropType \<Rightarrow> int" where
  "CROP_PRICES carrot = 35"
| "CROP_PRICES tomato = 60"
| "CROP_PRICES corn = 50"
| "CROP_PRICES turnip = 40"

subsection \<open>Numbers in template literals\<close>

text \<open>
  A template literal \<open>`${x},${z}`\<close> writes an integer-valued number in decimal, with a
  leading minus sign when it is negative.
\<close>

definition digit_char :: "nat \<Rightarrow> char" where
  "digit_char d = ''0123456789'' ! d"

definition is_digit :: "char \<Rightarrow> bool" where
  "is_digit c = (c \<in> set ''0123456789'')"

fun show_nat :: "nat \<Rightarrow> string" where
  "show_nat n = (if n < 10 then [digit_char n] else show_nat (n div 10) @ [digit_char (n mod 10)])"

declare show_nat.simps [simp del]

definition number_to_string :: "int \<Rightarrow> string" where
  "number_to_string i = (if i < 0 then CHR ''-'' # show_nat (nat (- i)) else show_nat (nat i))"

text \<open>\<open>const plotKey = `${x},${z}`\<close> in \<open>handlePlotClick\<close>.\<close>

definition plotKey :: "int \<Rightarrow> int \<Rightarrow> string" where
  "plotKey x z = number_to_string x @ '','' @ number_to_string z"

text \<open>\<open>id: `${x}-${z}-${Date.now()}`\<close>; \<open>now\<close> is the value \<open>Date.now()\<close> returned.\<close>

definition new_crop_id :: "int \<Rightarrow> int \<Rightarrow> int \<Rightarrow> string" where
  "new_crop_id x z now = number_to_string x @ ''-'' @ number_to_string z @ ''-'' @ number_to_string now"

subsection \<open>The initial state and the handlers\<close>

text \<open>The argument of \<open>useState\<close> in \<open>App\<close>.\<close>

definition initialState :: GameState where
  "initialState = \<lparr> day = 1, season = Some Spring, gold = 500, energy = 100,
                    selectedTool = hoe, crops = [], tiledPlots = {} \<rparr>"

text \<open>
  The tool buttons: \<open>setGameState(prev => ({ ...prev, selectedTool: 'hoe' }))\<close> and its three
  siblings.
\<close>

definition selectTool :: "Tool \<Rightarrow> GameState \<Rightarrow> GameState" where
  "selectTool tool prev = prev\<lparr> selectedTool := tool \<rparr>"

text \<open>
  \<open>const types = ['carrot', 'tomato', 'corn', 'turnip']\<close>; the planted type is
  \<open>types[Math.floor(Math.random() * types.length)]\<close>. The drawn index
  \<open>Math.floor(Math.random() * types.length)\<close> is an input \<open>rnd\<close> of the model; as
  \<open>Math.random()\<close> lies in \<open>[0, 1)\<close> it is one of 0, 1, 2, 3.
\<close>

definition types :: "CropType list" where
  "types = [carrot, tomato, corn, turnip]"

text \<open>
  \<open>handlePlotClick\<close>. The handler is a closure over \<open>gameState\<close>, the state of the render
  that produced it; it tests its conditions on \<open>gameState\<close> and then queues an updater
  \<open>prev => ...\<close>, which React applies to the state current at that time. The model returns
  that updater: \<open>handlePlotClick gameState x z rnd now\<close> is a function of \<open>prev\<close>.
  When no branch fires, nothing is queued and the state stays as it is.
\<close>

definition handlePlotClick ::
  "GameState \<Rightarrow> int \<Rightarrow> int \<Rightarrow> nat \<Rightarrow> int \<Rightarrow> GameState \<Rightarrow> GameState" where
  "handlePlotClick gameState x z rnd now prev =
     (let plotKey = plotKey x z;
          existingCrop = find (\<lambda>c. crop_x c = x \<and> crop_z c = z) (crops gameState)
      in
        if selectedTool gameState = hoe \<and> plotKey \<notin> tiledPlots gameState \<and> energy gameState \<ge> 5
        then prev\<lparr> tiledPlots := insert plotKey (tiledPlots prev), energy := energy prev - 5 \<rparr>
        else if selectedTool gameState = seed \<and> plotKey \<in> tiledPlots gameState
                \<and> existingCrop = None \<and> gold gameState \<ge> 20 \<and> energy gameState \<ge> 2
        then
          (let newCrop = \<lparr> crop_id = new_crop_id x z now, crop_x = x, crop_z = z,
                           crop_type = types ! rnd, stage = 0, plantedDay = day gameState \<rparr>
           in prev\<lparr> crops := crops prev @ [newCrop], gold := gold prev - 20,
                     energy := energy prev - 2 \<rparr>)
        else
          (case existingCrop of
             None \<Rightarrow> prev
           | Some ec \<Rightarrow>
               if selectedTool gameState = water \<and> stage ec < 3 \<and> energy gameState \<ge> 3
               then prev\<lparr> crops := map (\<lambda>c. if crop_id c = crop_id ec
                                              then c\<lparr> stage := min (stage c + 1) 3 \<rparr> else c)
                                        (crops prev),
                          energy := energy prev - 3 \<rparr>
               else prev))"

text \<open>\<open>handleCropClick\<close>, in the same style: the clicked crop is the argument.\<close>

definition handleCropClick :: "GameState \<Rightarrow> CropData \<Rightarrow> GameState \<Rightarrow> GameState" where
  "handleCropClick gameState crop prev =
     (if selectedTool gameState = harvest \<and> stage crop = 3
      then (let earnedGold = CROP_PRICES (crop_type crop)
            in prev\<lparr> crops := filter (\<lambda>c. crop_id c \<noteq> crop_id crop) (crops prev),
                      gold := gold prev + earnedGold \<rparr>)
      else if selectedTool gameState = water \<and> stage crop < 3 \<and> energy gameState \<ge> 3
      then prev\<lparr> crops := map (\<lambda>c. if crop_id c = crop_id crop
                                     then c\<lparr> stage := min (stage c + 1) 3 \<rparr> else c)
                               (crops prev),
                 energy := energy prev - 3 \<rparr>
      else prev)"

text \<open>
  JavaScript's \<open>%\<close> truncates towards zero: the result has the sign of the dividend.
  \<open>Math.floor(a / 28)\<close> on an integer \<open>a\<close> is HOL's \<open>a div 28\<close>, which rounds down.
\<close>

definition js_rem :: "int \<Rightarrow> int \<Rightarrow> int" where
  "js_rem a b = sgn a * (\<bar>a\<bar> mod \<bar>b\<bar>)"

definition seasons :: "Season list" where
  "seasons = [Spring, Summer, Fall, Winter]"

text \<open>\<open>seasons[seasonIndex]\<close>: \<open>undefined\<close> outside the array.\<close>

definition seasons_at :: "int \<Rightarrow> Season option" where
  "seasons_at i = (if 0 \<le> i \<and> i < int (length seasons) then Some (seasons ! nat i) else None)"

text \<open>\<open>nextDay\<close>: the updater passed to \<open>setGameState\<close>.\<close>

definition nextDay :: "GameState \<Rightarrow> GameState" where
  "nextDay prev =
     (let newDay = day prev + 1;
          seasonIndex = js_rem ((newDay - 1) div 28) 4
      in prev\<lparr> day := newDay, season := seasons_at seasonIndex, energy := 100 \<rparr>)"

subsection \<open>Click events and runs\<close>

text \<open>
  The game is driven by discrete clicks, and React renders again after each one, so the
  handler that a click runs was built from the state the click then updates: the closure's
  \<open>gameState\<close> and the updater's \<open>prev\<close> are the same state. \<open>interactPlot\<close> and
  \<open>interactCrop\<close> are the two handlers at that point.
\<close>

definition interactPlot :: "int \<Rightarrow> int \<Rightarrow> nat \<Rightarrow> int \<Rightarrow> GameState \<Rightarrow> GameState" where
  "interactPlot x z rnd now s = handlePlotClick s x z rnd now s"

definition interactCrop :: "CropData \<Rightarrow> GameState \<Rightarrow> GameState" where
  "interactCrop crop s = handleCropClick s crop s"

text \<open>
  An operation is one click, with the values it draws from outside (the random index and the
  clock) attached.
\<close>

datatype Op =
    SelectTool Tool
  | PlotClick int int nat int
  | CropClick CropData
  | NextDay

fun step :: "Op \<Rightarrow> GameState \<Rightarrow> GameState" where
  "step (SelectTool tool) s = selectTool tool s"
| "step (PlotClick x z rnd now) s = interactPlot x z rnd now s"
| "step (CropClick crop) s = interactCrop crop s"
| "step NextDay s = nextDay s"

fun run :: "Op list \<Rightarrow> GameState \<Rightarrow> GameState" where
  "run [] s = s"
| "run (op # ops) s = run ops (step op s)"

subsection \<open>What a run plants\<close>

text \<open>
  The crops an operation appends to the collection: \<open>handlePlotClick\<close> with the seed tool
  adds the new crop at the end of \<open>crops\<close>, and nothing else makes the list longer.
\<close>

definition planted :: "Op \<Rightarrow> GameState \<Rightarrow> CropData list" where
  "planted op s = drop (length (crops s)) (crops (step op s))"

text \<open>The ids given to the crops planted along a run, in the order of planting.\<close>

fun assigned_ids :: "Op list \<Rightarrow> GameState \<Rightarrow> string list" where
  "assigned_ids [] s = []"
| "assigned_ids (op # ops) s = map crop_id (planted op s) @ assigned_ids ops (step op s)"

text \<open>The plot and the clock value of each plot click of a run that planted a crop.\<close>

fun plant_stamps :: "Op list \<Rightarrow> GameState \<Rightarrow> (int \<times> int \<times> int) list" where
  "plant_stamps [] s = []"
| "plant_stamps (PlotClick x z rnd now # ops) s =
     (if planted (PlotClick x z rnd now) s = [] then [] else [(x, z, now)])
     @ plant_stamps ops (step (PlotClick x z rnd now) s)"
| "plant_stamps (op # ops) s = plant_stamps ops (step op s)"

subsection \<open>Well-formed farms\<close>

text \<open>
  A crop's id starts with its own coordinates, as \<open>handlePlotClick\<close> builds it.
\<close>

definition crop_wf :: "CropData \<Rightarrow> bool" where
  "crop_wf c = (\<exists>t. crop_id c = new_crop_id (crop_x c) (crop_z c) t)"

text \<open>
  No two crops share a plot, every crop is well formed and stands on a tilled plot.
\<close>

definition farm_inv :: "GameState \<Rightarrow> bool" where
  "farm_inv s =
     (distinct (map (\<lambda>c. (crop_x c, crop_z c)) (crops s)) \<and>
      (\<forall>c \<in> set (crops s). crop_wf c \<and> plotKey (crop_x c) (crop_z c) \<in> tiledPlots s))"

text \<open>
  The function both water branches map over the crops: the crop with the given id moves one
  stage on, capped at 3.
\<close>

definition water_crop :: "string \<Rightarrow> CropData \<Rightarrow> CropData" where
  "water_crop i = (\<lambda>c. if crop_id c = i then c\<lparr> stage := min (stage c + 1) 3 \<rparr> else c)"

subsection \<open>The calendar\<close>

text \<open>
  In the states of a run the day is positive, so \<open>nextDay\<close> reads inside \<open>seasons\<close>
  and JavaScript's remainder is the mathematical one.
\<close>

text \<open>
  The day counts up from 1, and the season is the one \<open>nextDay\<close> computes for that day.
\<close>

definition clock_inv :: "GameState \<Rightarrow> bool" where
  "clock_inv s = (1 \<le> day s \<and> season s = Some (seasons ! nat ((day s - 1) div 28 mod 4)))"

section \<open>Decimal strings are unambiguous\<close>

text \<open>
  A plot key and a crop id are decimal numbers joined by a comma or by minus signs. The
  numbers can be read back from the string, so two plots never share a key and an id fixes
  the plot and the clock value it was built from.
\<close>

lemma digit_char_is_digit: "d < 10 \<Longrightarrow> is_digit (digit_char d)"
proof -
  assume "d < 10"
  then have "d \<in> {0,1,2,3,4,5,6,7,8,9}" by auto
  then show ?thesis by (auto simp: is_digit_def digit_char_def)
qed

lemma digit_char_inj: "a < 10 \<Longrightarrow> b < 10 \<Longrightarrow> digit_char a = digit_char b \<Longrightarrow> a = b"
proof -
  assume "a < 10" "b < 10" and eq: "digit_char a = digit_char b"
  then have "a \<in> {0,1,2,3,4,5,6,7,8,9}" "b \<in> {0,1,2,3,4,5,6,7,8,9}" by auto
  with eq show ?thesis by (auto simp: digit_char_def)
qed

lemma show_nat_digits: "\<forall>c \<in> set (show_nat n). is_digit c"
proof (induction n rule: show_nat.induct)
  case (1 n)
  show ?case
  proof (cases "n < 10")
    case True
    then show ?thesis by (simp add: show_nat.simps [of n] digit_char_is_digit)
  next
    case False
    then show ?thesis using 1 by (simp add: show_nat.simps [of n] digit_char_is_digit)
  qed
qed

lemma show_nat_nonempty: "show_nat n \<noteq> []"
  by (simp add: show_nat.simps [of n])

lemma show_nat_inj: "show_nat n = show_nat m \<Longrightarrow> n = m"
proof (induction n arbitrary: m rule: show_nat.induct)
  case (1 n)
  show ?case
  proof (cases "n < 10")
    case n: True
    show ?thesis
    proof (cases "m < 10")
      case True
      with n 1(2) show ?thesis
        by (simp add: show_nat.simps [of n] show_nat.simps [of m] digit_char_inj)
    next
      case False
      with n 1(2) show_nat_nonempty [of "m div 10"] show ?thesis
        by (simp add: show_nat.simps [of n] show_nat.simps [of m])
    qed
  next
    case n: False
    show ?thesis
    proof (cases "m < 10")
      case True
      with n 1(2) show_nat_nonempty [of "n div 10"] show ?thesis
        by (simp add: show_nat.simps [of n] show_nat.simps [of m])
    next
      case False
      with n 1(2) have "show_nat (n div 10) = show_nat (m div 10)"
        and "digit_char (n mod 10) = digit_char (m mod 10)"
        by (simp_all add: show_nat.simps [of n] show_nat.simps [of m])
      then have "n div 10 = m div 10" "n mod 10 = m mod 10"
        using 1(1) [OF n] by (simp_all add: digit_char_inj)
      then show ?thesis by (metis div_mult_mod_eq)
    qed
  qed
qed

lemma split_at_sep:
  "c \<notin> set xs \<Longrightarrow> c \<notin> set ys \<Longrightarrow> xs @ c # r = ys @ c # r' \<Longrightarrow> xs = ys \<and> r = r'"
proof (induction xs arbitrary: ys)
  case Nil
  then show ?case by (cases ys) auto
next
  case (Cons a xs)
  then show ?case by (cases ys) auto
qed

lemma sep_not_in_show_nat: "\<not> is_digit c \<Longrightarrow> c \<notin> set (show_nat n)"
  using show_nat_digits by blast

lemma hd_show_nat: "is_digit (hd (show_nat n))"
  using show_nat_digits [of n] show_nat_nonempty [of n] by (cases "show_nat n") auto

lemma minus_not_digit: "\<not> is_digit CHR ''-''"
  by (simp add: is_digit_def)

lemma number_split:
  assumes sep: "\<not> is_digit c"
    and eq: "number_to_string a @ c # r = number_to_string b @ c # r'"
  shows "a = b \<and> r = r'"
proof -
  have neg_pos: False
    if "show_nat n @ c # u = CHR ''-'' # show_nat m @ c # v" for n m u v
  proof -
    from that have "hd (show_nat n) = CHR ''-''"
      using show_nat_nonempty [of n] by (cases "show_nat n") auto
    with hd_show_nat [of n] minus_not_digit show False by simp
  qed
  have pos: "n = m \<and> u = v" if "show_nat n @ c # u = show_nat m @ c # v" for n m u v
    using split_at_sep [OF sep_not_in_show_nat [OF sep] sep_not_in_show_nat [OF sep] that]
      show_nat_inj by blast
  show ?thesis
  proof (cases "a < 0")
    case a: True
    show ?thesis
    proof (cases "b < 0")
      case True
      with a eq pos [of "nat (- a)" r "nat (- b)" r'] have "nat (- a) = nat (- b) \<and> r = r'"
        by (simp add: number_to_string_def)
      with a True show ?thesis by linarith
    next
      case False
      with a eq neg_pos [of "nat b" r' "nat (- a)" r] show ?thesis
        by (simp add: number_to_string_def)
    qed
  next
    case a: False
    show ?thesis
    proof (cases "b < 0")
      case True
      with a eq neg_pos [of "nat a" r "nat (- b)" r'] show ?thesis
        by (simp add: number_to_string_def)
    next
      case False
      with a eq pos [of "nat a" r "nat b" r'] have "nat a = nat b \<and> r = r'"
        by (simp add: number_to_string_def)
      with a False show ?thesis by linarith
    qed
  qed
qed

lemma number_to_string_inj: "number_to_string a = number_to_string b \<Longrightarrow> a = b"
  using number_split [of "CHR ''-''" a "[]" b "[]"] minus_not_digit by simp

lemma new_crop_id_inj:
  "new_crop_id x z t = new_crop_id x' z' t' \<Longrightarrow> x = x' \<and> z = z' \<and> t = t'"
proof -
  assume eq: "new_crop_id x z t = new_crop_id x' z' t'"
  then have 1: "x = x'" and r: "number_to_string z @ CHR ''-'' # number_to_string t
      = number_to_string z' @ CHR ''-'' # number_to_string t'"
    using number_split [OF minus_not_digit, of x _ x'] by (auto simp: new_crop_id_def)
  from number_split [OF minus_not_digit r] number_to_string_inj 1 show ?thesis by blast
qed

lemma plotKey_inj: "plotKey x z = plotKey x' z' \<Longrightarrow> x = x' \<and> z = z'"
proof -
  have c: "\<not> is_digit CHR '',''" by (simp add: is_digit_def)
  assume "plotKey x z = plotKey x' z'"
  from number_split [OF c this [unfolded plotKey_def, simplified]] number_to_string_inj
  show ?thesis by blast
qed

lemma plotKey_eq_iff: "(plotKey x z = plotKey x' z') = (x = x' \<and> z = z')"
  using plotKey_inj by blast

lemma new_crop_id_eq_iff:
  "(new_crop_id x z t = new_crop_id x' z' t') = (x = x' \<and> z = z' \<and> t = t')"
  using new_crop_id_inj by blast

section \<open>The handlers, unfolded, and the farm invariant\<close>

text \<open>
  Both click events as one conditional each, and the invariant of a run: one crop per plot,
  ids that start with the crop's coordinates, crops on tilled plots. It gives that the crops
  present at one time have pairwise different ids.
\<close>

lemma water_crop_fields [simp]:
  "crop_x (water_crop i c) = crop_x c" "crop_z (water_crop i c) = crop_z c"
  "crop_id (water_crop i c) = crop_id c" "crop_type (water_crop i c) = crop_type c"
  "plantedDay (water_crop i c) = plantedDay c"
  by (simp_all add: water_crop_def)

lemma crop_wf_water [simp]: "crop_wf (water_crop i c) = crop_wf c"
  by (simp add: crop_wf_def)

lemma watered_inv:
  assumes "farm_inv s"
  shows "farm_inv (s\<lparr> crops := map (water_crop i) (crops s), energy := e \<rparr>)"
  using assms by (simp add: farm_inv_def comp_def)

lemma harvested_inv:
  assumes "farm_inv s"
  shows "farm_inv (s\<lparr> crops := filter P (crops s), gold := g \<rparr>)"
  using assms by (simp add: farm_inv_def distinct_map_filter)

lemma tilled_inv:
  assumes "farm_inv s"
  shows "farm_inv (s\<lparr> tiledPlots := insert k (tiledPlots s), energy := e \<rparr>)"
  using assms by (simp add: farm_inv_def)

lemma seeded_inv:
  assumes "farm_inv s" and "plotKey x z \<in> tiledPlots s"
    and "find (\<lambda>c. crop_x c = x \<and> crop_z c = z) (crops s) = None"
  shows "farm_inv (s\<lparr> crops := crops s @ [\<lparr> crop_id = new_crop_id x z now, crop_x = x, crop_z = z,
                           crop_type = ty, stage = 0, plantedDay = d \<rparr>], gold := g, energy := e \<rparr>)"
proof -
  from assms(3) have "(x, z) \<notin> set (map (\<lambda>c. (crop_x c, crop_z c)) (crops s))"
    by (auto simp: find_None_iff)
  with assms(1,2) show ?thesis
    by (auto simp: farm_inv_def crop_wf_def)
qed

lemma handlePlotClick_unfold:
  "interactPlot x z rnd now s =
     (if selectedTool s = hoe \<and> plotKey x z \<notin> tiledPlots s \<and> energy s \<ge> 5
      then s\<lparr> tiledPlots := insert (plotKey x z) (tiledPlots s), energy := energy s - 5 \<rparr>
      else if selectedTool s = seed \<and> plotKey x z \<in> tiledPlots s
              \<and> find (\<lambda>c. crop_x c = x \<and> crop_z c = z) (crops s) = None
              \<and> gold s \<ge> 20 \<and> energy s \<ge> 2
      then s\<lparr> crops := crops s @ [\<lparr> crop_id = new_crop_id x z now, crop_x = x, crop_z = z,
                           crop_type = types ! rnd, stage = 0, plantedDay = day s \<rparr>],
              gold := gold s - 20, energy := energy s - 2 \<rparr>
      else (case find (\<lambda>c. crop_x c = x \<and> crop_z c = z) (crops s) of
              None \<Rightarrow> s
            | Some ec \<Rightarrow>
               if selectedTool s = water \<and> stage ec < 3 \<and> energy s \<ge> 3
               then s\<lparr> crops := map (water_crop (crop_id ec)) (crops s), energy := energy s - 3 \<rparr>
               else s))"
  by (simp add: interactPlot_def handlePlotClick_def Let_def water_crop_def split: option.split)

lemma interactCrop_unfold:
  "interactCrop crop s =
     (if selectedTool s = harvest \<and> stage crop = 3
      then s\<lparr> crops := filter (\<lambda>c. crop_id c \<noteq> crop_id crop) (crops s),
              gold := gold s + CROP_PRICES (crop_type crop) \<rparr>
      else if selectedTool s = water \<and> stage crop < 3 \<and> energy s \<ge> 3
      then s\<lparr> crops := map (water_crop (crop_id crop)) (crops s), energy := energy s - 3 \<rparr>
      else s)"
  by (simp add: interactCrop_def handleCropClick_def Let_def water_crop_def)

lemma farm_inv_step: "farm_inv s \<Longrightarrow> farm_inv (step op s)"
proof (cases op)
  case (SelectTool tool)
  then show "farm_inv s \<Longrightarrow> ?thesis" by (simp add: selectTool_def farm_inv_def)
next
  case (PlotClick x z rnd now)
  then show "farm_inv s \<Longrightarrow> ?thesis"
    by (simp add: handlePlotClick_unfold tilled_inv seeded_inv watered_inv split: option.split)
next
  case (CropClick crop)
  then show "farm_inv s \<Longrightarrow> ?thesis"
    by (simp add: interactCrop_unfold harvested_inv watered_inv)
next
  case NextDay
  then show "farm_inv s \<Longrightarrow> ?thesis" by (simp add: nextDay_def farm_inv_def Let_def)
qed

lemma farm_inv_run: "farm_inv s \<Longrightarrow> farm_inv (run ops s)"
  by (induction ops arbitrary: s) (simp_all add: farm_inv_step)

lemma farm_inv_initial: "farm_inv initialState"
  by (simp add: farm_inv_def initialState_def)

lemma farm_inv_reachable: "farm_inv (run ops initialState)"
  by (rule farm_inv_run [OF farm_inv_initial])

lemma farm_inv_same_id:
  assumes "farm_inv s" "c \<in> set (crops s)" "c' \<in> set (crops s)" "crop_id c = crop_id c'"
  shows "c = c'"
proof -
  from assms(1-3) have "crop_wf c" "crop_wf c'"
    by (simp_all add: farm_inv_def)
  then obtain t t' where
    "crop_id c = new_crop_id (crop_x c) (crop_z c) t"
    "crop_id c' = new_crop_id (crop_x c') (crop_z c') t'"
    by (auto simp: crop_wf_def)
  with assms(4) have "(crop_x c, crop_z c) = (crop_x c', crop_z c')"
    using new_crop_id_inj by auto
  moreover from assms(1) have "inj_on (\<lambda>c. (crop_x c, crop_z c)) (set (crops s))"
    by (simp add: farm_inv_def distinct_map)
  ultimately show ?thesis using assms(2,3) by (auto dest: inj_onD)
qed

lemma farm_inv_distinct_ids: "farm_inv s \<Longrightarrow> distinct (map crop_id (crops s))"
proof -
  assume inv: "farm_inv s"
  then have "distinct (crops s)" by (simp add: farm_inv_def distinct_map)
  moreover have "inj_on crop_id (set (crops s))"
    by (rule inj_onI) (rule farm_inv_same_id [OF inv])
  ultimately show ?thesis by (simp add: distinct_map)
qed

lemma farm_inv_find:
  assumes "farm_inv s" "c \<in> set (crops s)"
  shows "find (\<lambda>c'. crop_x c' = crop_x c \<and> crop_z c' = crop_z c) (crops s) = Some c"
proof -
  from assms(2) obtain c' where f: "find (\<lambda>c'. crop_x c' = crop_x c \<and> crop_z c' = crop_z c) (crops s) = Some c'"
    by (cases "find (\<lambda>c'. crop_x c' = crop_x c \<and> crop_z c' = crop_z c) (crops s)")
       (auto simp: find_None_iff)
  then have "c' \<in> set (crops s)" "crop_x c' = crop_x c" "crop_z c' = crop_z c"
    by (auto simp: find_Some_iff)
  moreover from assms(1) have "inj_on (\<lambda>c. (crop_x c, crop_z c)) (set (crops s))"
    by (simp add: farm_inv_def distinct_map)
  ultimately have "c' = c" using assms(2) by (auto dest: inj_onD)
  with f show ?thesis by simp
qed

section \<open>Resource bounds\<close>

text \<open>
  Every step keeps gold and energy at or above 0 and energy at or below 100.
\<close>

lemma step_gold_nonneg: "0 \<le> gold s \<Longrightarrow> 0 \<le> gold (step op s)"
proof (cases op)
  case (CropClick crop)
  have "0 \<le> CROP_PRICES (crop_type crop)" by (cases "crop_type crop") simp_all
  then show "0 \<le> gold s \<Longrightarrow> ?thesis" using CropClick
    by (simp add: interactCrop_def handleCropClick_def Let_def)
qed (auto simp: selectTool_def interactPlot_def handlePlotClick_def nextDay_def Let_def
          split: option.splits)

lemma step_energy_nonneg: "0 \<le> energy s \<Longrightarrow> 0 \<le> energy (step op s)"
  by (cases op)
     (auto simp: selectTool_def interactPlot_def handlePlotClick_def interactCrop_def
                 handleCropClick_def nextDay_def Let_def split: option.splits)

lemma step_energy_le: "energy s \<le> 100 \<Longrightarrow> energy (step op s) \<le> 100"
  by (cases op)
     (auto simp: selectTool_def interactPlot_def handlePlotClick_def interactCrop_def
                 handleCropClick_def nextDay_def Let_def split: option.splits)

lemma run_bounds:
  "0 \<le> gold s \<Longrightarrow> 0 \<le> energy s \<Longrightarrow> energy s \<le> 100 \<Longrightarrow>
   0 \<le> gold (run ops s) \<and> 0 \<le> energy (run ops s) \<and> energy (run ops s) \<le> 100"
proof (induction ops arbitrary: s)
  case Nil
  then show ?case by simp
next
  case (Cons op ops)
  show ?case
    using Cons.IH [of "step op s"] Cons.prems
    by (simp add: step_gold_nonneg step_energy_nonneg step_energy_le)
qed

section \<open>The calendar\<close>

lemma js_rem_nonneg: "0 \<le> a \<Longrightarrow> 0 < b \<Longrightarrow> js_rem a b = a mod b"
  by (simp add: js_rem_def sgn_if)

lemma seasons_at_mod4: "seasons_at (i mod 4) = Some (seasons ! nat (i mod 4))"
  by (simp add: seasons_at_def seasons_def)

lemma nextDay_season:
  assumes "0 \<le> day s"
  shows "nextDay s = s\<lparr> day := day s + 1,
                         season := Some (seasons ! nat ((day s + 1 - 1) div 28 mod 4)),
                         energy := 100 \<rparr>"
proof -
  from assms have "0 \<le> day s div 28" by simp
  then have "js_rem (day s div 28) 4 = day s div 28 mod 4" by (simp add: js_rem_nonneg)
  then show ?thesis by (simp add: nextDay_def Let_def seasons_at_mod4)
qed
lemma clock_inv_step: "clock_inv s \<Longrightarrow> clock_inv (step op s)"
proof (cases op)
  case NextDay
  assume "clock_inv s"
  then have "0 \<le> day s" by (simp add: clock_inv_def)
  from nextDay_season [OF this] \<open>clock_inv s\<close> show ?thesis
    using NextDay by (simp add: clock_inv_def)
qed (simp_all add: clock_inv_def selectTool_def handlePlotClick_unfold interactCrop_unfold
       split: option.split)

lemma clock_inv_run: "clock_inv s \<Longrightarrow> clock_inv (run ops s)"
  by (induction ops arbitrary: s) (simp_all add: clock_inv_step)

lemma clock_inv_reachable: "clock_inv (run ops initialState)"
  by (rule clock_inv_run) (simp add: clock_inv_def initialState_def seasons_def)

lemma run_append: "run (ops @ ops') s = run ops' (run ops s)"
  by (induction ops arbitrary: s) simp_all

lemma day_nextDays: "day (run (replicate n NextDay) s) = day s + int n"
  by (induction n arbitrary: s) (simp_all add: nextDay_def Let_def)

lemma season_ranges:
  fixes d :: int
  shows "1 \<le> d \<Longrightarrow> d \<le> 28 \<Longrightarrow> seasons ! nat ((d - 1) div 28 mod 4) = Spring"
    and "29 \<le> d \<Longrightarrow> d \<le> 56 \<Longrightarrow> seasons ! nat ((d - 1) div 28 mod 4) = Summer"
    and "57 \<le> d \<Longrightarrow> d \<le> 84 \<Longrightarrow> seasons ! nat ((d - 1) div 28 mod 4) = Fall"
    and "85 \<le> d \<Longrightarrow> d \<le> 112 \<Longrightarrow> seasons ! nat ((d - 1) div 28 mod 4) = Winter"
proof -
  show "seasons ! nat ((d - 1) div 28 mod 4) = Spring" if "1 \<le> d" "d \<le> 28"
  proof -
    from that have "(d - 1) div 28 = 0" by simp
    then show ?thesis by (simp add: seasons_def)
  qed
  show "seasons ! nat ((d - 1) div 28 mod 4) = Summer" if "29 \<le> d" "d \<le> 56"
  proof -
    from that have "(d - 1) div 28 = 1" by simp
    then show ?thesis by (simp add: seasons_def)
  qed
  show "seasons ! nat ((d - 1) div 28 mod 4) = Fall" if "57 \<le> d" "d \<le> 84"
  proof -
    from that have "(d - 1) div 28 = 2" by simp
    then show ?thesis by (simp add: seasons_def)
  qed
  show "seasons ! nat ((d - 1) div 28 mod 4) = Winter" if "85 \<le> d" "d \<le> 112"
  proof -
    from that have "(d - 1) div 28 = 3" by simp
    then show ?thesis by (simp add: seasons_def)
  qed
qed

lemma season_period:
  fixes d :: int
  shows "(d + 112 - 1) div 28 mod 4 = (d - 1) div 28 mod 4"
proof -
  have "d + 112 - 1 = (d - 1) + 4 * 28" by simp
  then have "(d + 112 - 1) div 28 = (d - 1) div 28 + 4" by simp
  then show ?thesis by simp
qed

section \<open>One crop, one id\<close>

text \<open>
  With unique ids, the map and the filter over ids touch exactly the clicked crop.
\<close>

lemma water_unique:
  assumes "farm_inv s" "c \<in> set (crops s)"
  shows "map (water_crop (crop_id c)) (crops s)
       = map (\<lambda>c'. if c' = c then c'\<lparr> stage := min (stage c' + 1) 3 \<rparr> else c') (crops s)"
proof (rule map_cong [OF refl])
  fix c' assume "c' \<in> set (crops s)"
  then have "(crop_id c' = crop_id c) = (c' = c)"
    using farm_inv_same_id [OF assms(1) _ assms(2)] by auto
  then show "water_crop (crop_id c) c' = (if c' = c then c'\<lparr> stage := min (stage c' + 1) 3 \<rparr> else c')"
    by (simp add: water_crop_def)
qed

lemma harvest_unique:
  assumes "farm_inv s" "c \<in> set (crops s)"
  shows "filter (\<lambda>c'. crop_id c' \<noteq> crop_id c) (crops s) = filter (\<lambda>c'. c' \<noteq> c) (crops s)"
proof (rule filter_cong [OF refl])
  fix c' assume "c' \<in> set (crops s)"
  then show "(crop_id c' \<noteq> crop_id c) = (c' \<noteq> c)"
    using farm_inv_same_id [OF assms(1) _ assms(2)] by auto
qed

lemma energy_changed: "s\<lparr> crops := C, energy := energy s - 3 \<rparr> \<noteq> s"
proof
  assume "s\<lparr> crops := C, energy := energy s - 3 \<rparr> = s"
  then have "energy (s\<lparr> crops := C, energy := energy s - 3 \<rparr>) = energy s" by simp
  then show False by simp
qed

lemma gold_changed: "0 < p \<Longrightarrow> s\<lparr> crops := C, gold := gold s + p \<rparr> \<noteq> s"
proof
  assume "0 < p" "s\<lparr> crops := C, gold := gold s + p \<rparr> = s"
  then have "gold (s\<lparr> crops := C, gold := gold s + p \<rparr>) = gold s" by simp
  with \<open>0 < p\<close> show False by simp
qed

lemma price_pos: "0 < CROP_PRICES t"
  by (cases t) simp_all

section \<open>Planting along a run\<close>

text \<open>
  What \<open>planted\<close> returns for each kind of operation, and the ids of a run written through
  the plots and clock values of its plantings.
\<close>

lemma planted_cases:
  "planted op s = [] \<or>
   (\<exists>x z rnd now. op = PlotClick x z rnd now \<and> selectedTool s = seed
      \<and> plotKey x z \<in> tiledPlots s
      \<and> planted op s = [\<lparr> crop_id = new_crop_id x z now, crop_x = x, crop_z = z,
                           crop_type = types ! rnd, stage = 0, plantedDay = day s \<rparr>])"
proof (cases op)
  case (SelectTool tool)
  then show ?thesis by (simp add: planted_def selectTool_def)
next
  case (PlotClick x z rnd now)
  then show ?thesis
    by (simp add: planted_def handlePlotClick_unfold split: option.split)
next
  case (CropClick crop)
  then show ?thesis by (simp add: planted_def interactCrop_unfold)
next
  case NextDay
  then show ?thesis by (simp add: planted_def nextDay_def Let_def)
qed

lemma planted_on_tilled: "c \<in> set (planted op s) \<Longrightarrow> plotKey (crop_x c) (crop_z c) \<in> tiledPlots s"
  using planted_cases [of op s] by auto

lemma tiledPlots_step: "tiledPlots s \<subseteq> tiledPlots (step op s)"
  by (cases op)
     (auto simp: selectTool_def handlePlotClick_unfold interactCrop_unfold nextDay_def Let_def
           split: option.split)

lemma tiledPlots_run: "tiledPlots s \<subseteq> tiledPlots (run ops s)"
proof (induction ops arbitrary: s)
  case Nil
  show ?case by simp
next
  case (Cons op ops)
  from tiledPlots_step [of s op] Cons [of "step op s"] show ?case by auto
qed
lemma planted_PlotClick_id:
  "planted (PlotClick x z rnd now) s \<noteq> [] \<Longrightarrow>
   map crop_id (planted (PlotClick x z rnd now) s) = [new_crop_id x z now]"
  using planted_cases [of "PlotClick x z rnd now" s] by auto

lemma planted_other:
  "planted (SelectTool t) s = []" "planted (CropClick c) s = []" "planted NextDay s = []"
  using planted_cases [of "SelectTool t" s] planted_cases [of "CropClick c" s]
    planted_cases [of NextDay s] by auto

lemma assigned_ids_stamps:
  "assigned_ids ops s = map (\<lambda>(x, z, t). new_crop_id x z t) (plant_stamps ops s)"
proof (induction ops arbitrary: s)
  case Nil
  show ?case by simp
next
  case (Cons op ops)
  show ?case
  proof (cases op)
    case (PlotClick x z rnd now)
    then show ?thesis
      using Cons [of "step op s"] planted_PlotClick_id [of x z rnd now s] by simp
  qed (simp_all add: Cons planted_other)
qed

lemma new_crop_id_inj_on: "inj (\<lambda>(x, z, t). new_crop_id x z t)"
  by (rule injI) (auto dest: new_crop_id_inj)

section \<open>Three concrete runs\<close>

text \<open>
  A farm with one freshly sown tomato, the same farm with the tomato ripe, and a farm where
  17 tillings, 3 sowings and 3 waterings have used up all 100 energy.
\<close>

lemmas run_simps = new_crop_id_eq_iff handlePlotClick_unfold interactCrop_unfold selectTool_def initialState_def
  water_crop_def types_def plotKey_eq_iff nextDay_def

lemma sown_state:
  "run [PlotClick 0 0 1 7, SelectTool seed, PlotClick 0 0 1 7, SelectTool water] initialState
   = \<lparr> day = 1, season = Some Spring, gold = 480, energy = 93, selectedTool = water,
       crops = [\<lparr> crop_id = new_crop_id 0 0 7, crop_x = 0, crop_z = 0, crop_type = tomato,
                  stage = 0, plantedDay = 1 \<rparr>],
       tiledPlots = {plotKey 0 0} \<rparr>"
  by (simp add: run_simps)

lemma ripe_state:
  "run [PlotClick 0 0 1 7, SelectTool seed, PlotClick 0 0 1 7, SelectTool water,
        PlotClick 0 0 1 7, PlotClick 0 0 1 7, PlotClick 0 0 1 7, SelectTool harvest] initialState
   = \<lparr> day = 1, season = Some Spring, gold = 480, energy = 84, selectedTool = harvest,
       crops = [\<lparr> crop_id = new_crop_id 0 0 7, crop_x = 0, crop_z = 0, crop_type = tomato,
                  stage = 3, plantedDay = 1 \<rparr>],
       tiledPlots = {plotKey 0 0} \<rparr>"
  by (simp add: run_simps)

lemma spent_state:
  "run [PlotClick 0 0 1 7, PlotClick 0 1 1 7, PlotClick 0 2 1 7, PlotClick 0 3 1 7,
        PlotClick 0 4 1 7, PlotClick 0 5 1 7, PlotClick 0 6 1 7, PlotClick 1 0 1 7,
        PlotClick 1 1 1 7, PlotClick 1 2 1 7, PlotClick 1 3 1 7, PlotClick 1 4 1 7,
        PlotClick 1 5 1 7, PlotClick 1 6 1 7, PlotClick 2 0 1 7, PlotClick 2 1 1 7,
        PlotClick 2 2 1 7, SelectTool seed, PlotClick 0 0 1 7, PlotClick 0 1 0 7, PlotClick 0 2 0 7,
        SelectTool water, PlotClick 0 0 1 7, PlotClick 0 0 1 7, PlotClick 0 0 1 7,
        SelectTool harvest] initialState
   = \<lparr> day = 1, season = Some Spring, gold = 440, energy = 0, selectedTool = harvest,
       crops = [\<lparr> crop_id = new_crop_id 0 0 7, crop_x = 0, crop_z = 0, crop_type = tomato,
                  stage = 3, plantedDay = 1 \<rparr>,
                \<lparr> crop_id = new_crop_id 0 1 7, crop_x = 0, crop_z = 1, crop_type = carrot,
                  stage = 0, plantedDay = 1 \<rparr>,
                \<lparr> crop_id = new_crop_id 0 2 7, crop_x = 0, crop_z = 2, crop_type = carrot,
                  stage = 0, plantedDay = 1 \<rparr>],
       tiledPlots = {plotKey 2 2, plotKey 2 1, plotKey 2 0, plotKey 1 6, plotKey 1 5, plotKey 1 4,
                     plotKey 1 3, plotKey 1 2, plotKey 1 1, plotKey 1 0, plotKey 0 6, plotKey 0 5,
                     plotKey 0 4, plotKey 0 3, plotKey 0 2, plotKey 0 1, plotKey 0 0} \<rparr>"
  by (simp add: run_simps)

section \<open>The claims\<close>

text \<open>
  Claim C1. From the initial state (gold 500, energy 100), after any sequence of tool
  selections, plot clicks, crop clicks and day advances, gold is at least 0 and energy lies
  between 0 and 100; and from any state, one operation on non-negative gold leaves gold
  non-negative, and one operation on non-negative energy leaves energy non-negative.
\<close>

theorem resources_stay_in_range:
  "0 \<le> gold (run ops initialState) \<and>
   0 \<le> energy (run ops initialState) \<and>
   energy (run ops initialState) \<le> 100 \<and>
   (0 \<le> gold s \<longrightarrow> 0 \<le> gold (step op s)) \<and>
   (0 \<le> energy s \<longrightarrow> 0 \<le> energy (step op s))"
proof -
  have "0 \<le> gold initialState" "0 \<le> energy initialState" "energy initialState \<le> 100"
    by (simp_all add: initialState_def)
  from run_bounds [OF this] show ?thesis
    by (simp add: step_gold_nonneg step_energy_nonneg)
qed

theorem resources_stay_in_range_witness:
  "0 \<le> gold (run [PlotClick 0 0 1 7, SelectTool seed, PlotClick 0 0 1 7] initialState) \<and>
   0 \<le> energy (run [PlotClick 0 0 1 7, SelectTool seed, PlotClick 0 0 1 7] initialState) \<and>
   energy (run [PlotClick 0 0 1 7, SelectTool seed, PlotClick 0 0 1 7] initialState) \<le> 100 \<and>
   0 \<le> gold (step (PlotClick 2 3 0 7)
                \<lparr> day = 1, season = Some Spring, gold = 19, energy = 4, selectedTool = seed,
                  crops = [], tiledPlots = {plotKey 2 3} \<rparr>) \<and>
   0 \<le> energy (step (PlotClick 2 3 0 7)
                \<lparr> day = 1, season = Some Spring, gold = 19, energy = 4, selectedTool = seed,
                  crops = [], tiledPlots = {plotKey 2 3} \<rparr>)"
proof -
  let ?s = "\<lparr> day = 1, season = Some Spring, gold = 19, energy = 4, selectedTool = seed,
              crops = [], tiledPlots = {plotKey 2 3} \<rparr>"
  have "0 \<le> gold ?s" "0 \<le> energy ?s" by simp_all
  with resources_stay_in_range
    [of "[PlotClick 0 0 1 7, SelectTool seed, PlotClick 0 0 1 7]" ?s "PlotClick 2 3 0 7"]
  show ?thesis by blast
qed

text \<open>
  Claim C2. \<open>nextDay\<close> is a total function: on every state it adds exactly 1 to the day,
  sets energy to 100 and leaves gold, the crops and the tilled plots as they are. In every
  state \<open>r\<close> reached from the initial one the day is at least 1, the array read is inside
  the array, JavaScript's remainder agrees with \<open>mod\<close>, and so the new season is
  \<open>seasons[floor((day - 1) / 28) mod 4]\<close> for the new day. The season is Spring on days
  1 to 28, Summer on days 29 to 56 (so it first turns to Summer on day 29), Fall on days 57 to
  84 and Winter on days 85 to 112, and 112 day advances bring the same season back.
\<close>

theorem advanceDay_effect:
  assumes "r = run ops initialState"
  shows "day (nextDay s) = day s + 1
       \<and> energy (nextDay s) = 100
       \<and> gold (nextDay s) = gold s
       \<and> crops (nextDay s) = crops s
       \<and> tiledPlots (nextDay s) = tiledPlots s
       \<and> nextDay r = r\<lparr> day := day r + 1,
                         season := Some (seasons ! nat ((day r + 1 - 1) div 28 mod 4)),
                         energy := 100 \<rparr>
       \<and> 1 \<le> day r
       \<and> season r = Some (seasons ! nat ((day r - 1) div 28 mod 4))
       \<and> (day r \<le> 28 \<longrightarrow> season r = Some Spring)
       \<and> (29 \<le> day r \<and> day r \<le> 56 \<longrightarrow> season r = Some Summer)
       \<and> (57 \<le> day r \<and> day r \<le> 84 \<longrightarrow> season r = Some Fall)
       \<and> (85 \<le> day r \<and> day r \<le> 112 \<longrightarrow> season r = Some Winter)
       \<and> day (run (replicate 112 NextDay) r) = day r + 112
       \<and> season (run (replicate 112 NextDay) r) = season r"
proof -
  have frame: "day (nextDay s) = day s + 1" "energy (nextDay s) = 100"
    "gold (nextDay s) = gold s" "crops (nextDay s) = crops s"
    "tiledPlots (nextDay s) = tiledPlots s"
    by (simp_all add: nextDay_def Let_def)
  from assms have inv: "clock_inv r" by (simp add: clock_inv_reachable)
  then have d: "1 \<le> day r"
    and se: "season r = Some (seasons ! nat ((day r - 1) div 28 mod 4))"
    by (simp_all add: clock_inv_def)
  from d have eq: "nextDay r = r\<lparr> day := day r + 1,
                         season := Some (seasons ! nat ((day r + 1 - 1) div 28 mod 4)),
                         energy := 100 \<rparr>"
    by (intro nextDay_season) simp
  have d112: "day (run (replicate 112 NextDay) r) = day r + 112"
    by (simp add: day_nextDays)
  from inv have "clock_inv (run (replicate 112 NextDay) r)" by (rule clock_inv_run)
  then have "season (run (replicate 112 NextDay) r)
      = Some (seasons ! nat ((day r + 112 - 1) div 28 mod 4))"
    by (simp add: clock_inv_def d112)
  with se have per: "season (run (replicate 112 NextDay) r) = season r"
    by (simp only: season_period)
  have r1: "day r \<le> 28 \<longrightarrow> season r = Some Spring"
    using d se season_ranges(1) [of "day r"] by (simp only:) blast
  have r2: "29 \<le> day r \<and> day r \<le> 56 \<longrightarrow> season r = Some Summer"
    using se season_ranges(2) [of "day r"] by (simp only:) blast
  have r3: "57 \<le> day r \<and> day r \<le> 84 \<longrightarrow> season r = Some Fall"
    using se season_ranges(3) [of "day r"] by (simp only:) blast
  have r4: "85 \<le> day r \<and> day r \<le> 112 \<longrightarrow> season r = Some Winter"
    using se season_ranges(4) [of "day r"] by (simp only:) blast
  from frame eq d se r1 r2 r3 r4 d112 per show ?thesis by (intro conjI)
qed

theorem advanceDay_effect_witness:
  "nextDay (run [PlotClick 0 0 1 7, NextDay] initialState)
     = \<lparr> day = 3, season = Some Spring, gold = 500, energy = 100,
         selectedTool = hoe, crops = [], tiledPlots = {plotKey 0 0} \<rparr>
   \<and> energy (nextDay (initialState\<lparr> energy := 0 \<rparr>)) = 100
   \<and> season (run (replicate 27 NextDay) initialState) = Some Spring
   \<and> season (run (replicate 28 NextDay) initialState) = Some Summer
   \<and> season (run (replicate 56 NextDay) initialState) = Some Fall
   \<and> season (run (replicate 84 NextDay) initialState) = Some Winter
   \<and> season (run (replicate 112 NextDay) initialState) = Some Spring"
proof -
  have d: "day (run (replicate n NextDay) initialState) = 1 + int n" for n
    by (simp add: day_nextDays initialState_def)
  have s: "run [PlotClick 0 0 1 7, NextDay] initialState
     = \<lparr> day = 2, season = Some Spring, gold = 500, energy = 100,
         selectedTool = hoe, crops = [], tiledPlots = {plotKey 0 0} \<rparr>"
    by (simp add: handlePlotClick_unfold initialState_def nextDay_def seasons_at_def
          seasons_def js_rem_def)
  note t = advanceDay_effect [OF refl, where ops = "[PlotClick 0 0 1 7, NextDay]"
      and s = "initialState\<lparr> energy := 0 \<rparr>"]
  have 1: "nextDay (run [PlotClick 0 0 1 7, NextDay] initialState)
     = \<lparr> day = 3, season = Some Spring, gold = 500, energy = 100,
         selectedTool = hoe, crops = [], tiledPlots = {plotKey 0 0} \<rparr>"
    using t [THEN conjunct2, THEN conjunct2, THEN conjunct2, THEN conjunct2, THEN conjunct2,
             THEN conjunct1]
    by (simp only: s) (simp add: seasons_def)
  note 2 = t [THEN conjunct2, THEN conjunct1]
  have 3: "season (run (replicate 27 NextDay) initialState) = Some Spring"
    using advanceDay_effect [OF refl, where ops = "replicate 27 NextDay"]
    by (simp only: d) (simp add: seasons_def)
  have 4: "season (run (replicate 28 NextDay) initialState) = Some Summer"
    using advanceDay_effect [OF refl, where ops = "replicate 28 NextDay"]
    by (simp only: d) (simp add: seasons_def)
  have 5: "season (run (replicate 56 NextDay) initialState) = Some Fall"
    using advanceDay_effect [OF refl, where ops = "replicate 56 NextDay"]
    by (simp only: d) (simp add: seasons_def)
  have 6: "season (run (replicate 84 NextDay) initialState) = Some Winter"
    using advanceDay_effect [OF refl, where ops = "replicate 84 NextDay"]
    by (simp only: d) (simp add: seasons_def)
  have 7: "season (run (replicate 112 NextDay) initialState) = Some Spring"
    using advanceDay_effect [OF refl, where ops = "[]"] by (simp add: initialState_def)
  from 1 2 3 4 5 6 7 show ?thesis by (intro conjI)
qed

text \<open>
  Claim C3. With the hoe selected, a plot click changes the state exactly when the plot's key
  is not in the tilled set and energy is at least 5; it then adds that key to the tilled set
  and takes 5 energy, and otherwise returns the state as it is. The key added is the key of
  plot \<open>(x, z)\<close> and of no other plot. A second click on the same plot right after the
  first changes nothing.
\<close>

theorem till_plot:
  assumes "selectedTool s = hoe"
  shows "interactPlot x z rnd now s =
           (if plotKey x z \<notin> tiledPlots s \<and> 5 \<le> energy s
            then s\<lparr> tiledPlots := insert (plotKey x z) (tiledPlots s), energy := energy s - 5 \<rparr>
            else s)
       \<and> (interactPlot x z rnd now s \<noteq> s) = (plotKey x z \<notin> tiledPlots s \<and> 5 \<le> energy s)
       \<and> (plotKey x' z' \<in> tiledPlots (interactPlot x z rnd now s)) =
           (plotKey x' z' \<in> tiledPlots s \<or> (x' = x \<and> z' = z) \<and> 5 \<le> energy s)
       \<and> interactPlot x z rnd' now' (interactPlot x z rnd now s) = interactPlot x z rnd now s"
proof -
  have eq: "interactPlot x z r t s =
           (if plotKey x z \<notin> tiledPlots s \<and> 5 \<le> energy s
            then s\<lparr> tiledPlots := insert (plotKey x z) (tiledPlots s), energy := energy s - 5 \<rparr>
            else s)" for r t
    using assms by (simp add: handlePlotClick_unfold split: option.split)
  have neq: "s\<lparr> tiledPlots := T, energy := energy s - 5 \<rparr> \<noteq> s" for T
  proof
    assume "s\<lparr> tiledPlots := T, energy := energy s - 5 \<rparr> = s"
    then have "energy (s\<lparr> tiledPlots := T, energy := energy s - 5 \<rparr>) = energy s" by simp
    then show False by simp
  qed
  have changed: "(interactPlot x z rnd now s \<noteq> s) = (plotKey x z \<notin> tiledPlots s \<and> 5 \<le> energy s)"
    by (simp add: eq neq)
  have mem: "(plotKey x' z' \<in> tiledPlots (interactPlot x z rnd now s)) =
           (plotKey x' z' \<in> tiledPlots s \<or> (x' = x \<and> z' = z) \<and> 5 \<le> energy s)"
    using plotKey_inj [of x' z' x z] by (auto simp: eq)
  have again: "interactPlot x z rnd' now' (interactPlot x z rnd now s) = interactPlot x z rnd now s"
    using assms by (simp add: handlePlotClick_unfold split: option.split)
  from eq changed mem again show ?thesis by (intro conjI)
qed

theorem till_plot_witness:
  "interactPlot 2 3 0 7 initialState = initialState\<lparr> tiledPlots := {''2,3''}, energy := 95 \<rparr>
   \<and> interactPlot 2 3 0 7 initialState \<noteq> initialState
   \<and> interactPlot 2 3 1 8 (interactPlot 2 3 0 7 initialState) = interactPlot 2 3 0 7 initialState"
proof -
  have k: "plotKey 2 3 = ''2,3''"
    by (simp add: plotKey_def number_to_string_def show_nat.simps digit_char_def)
  have h: "selectedTool initialState = hoe" by (simp add: initialState_def)
  note t = till_plot [OF h, of 2 3 0 7 2 3 1 8]
  have e: "plotKey 2 3 \<notin> tiledPlots initialState \<and> 5 \<le> energy initialState"
    by (simp add: initialState_def)
  from t [THEN conjunct1] e
  have 1: "interactPlot 2 3 0 7 initialState = initialState\<lparr> tiledPlots := {''2,3''}, energy := 95 \<rparr>"
    by (simp add: k) (simp add: initialState_def)
  from t [THEN conjunct2, THEN conjunct1] e
  have 2: "interactPlot 2 3 0 7 initialState \<noteq> initialState" by (simp only:) simp
  note 3 = t [THEN conjunct2, THEN conjunct2, THEN conjunct2]
  from 1 2 3 show ?thesis by (intro conjI)
qed

text \<open>
  Claim C4. With the seed tool selected, a plot click changes the state exactly when the plot
  is tilled, no crop stands at \<open>(x, z)\<close>, gold is at least 20 and energy at least 2; it
  then appends one crop at \<open>(x, z)\<close> with stage 0 and \<open>plantedDay\<close> the current day,
  takes 20 gold and 2 energy, and otherwise returns the state as it is. From the initial
  state, tilling \<open>(0, 0)\<close> leaves energy 95, and seeding \<open>(0, 0)\<close> next leaves gold 480,
  energy 93 and exactly one crop, at stage 0.
\<close>

theorem plant_seed:
  assumes "selectedTool s = seed"
  shows "interactPlot x z rnd now s =
           (if plotKey x z \<in> tiledPlots s
               \<and> \<not> (\<exists>c \<in> set (crops s). crop_x c = x \<and> crop_z c = z)
               \<and> 20 \<le> gold s \<and> 2 \<le> energy s
            then s\<lparr> crops := crops s @ [\<lparr> crop_id = new_crop_id x z now, crop_x = x, crop_z = z,
                                         crop_type = types ! rnd, stage = 0, plantedDay = day s \<rparr>],
                    gold := gold s - 20, energy := energy s - 2 \<rparr>
            else s)
       \<and> (interactPlot x z rnd now s \<noteq> s) =
           (plotKey x z \<in> tiledPlots s
               \<and> \<not> (\<exists>c \<in> set (crops s). crop_x c = x \<and> crop_z c = z)
               \<and> 20 \<le> gold s \<and> 2 \<le> energy s)
       \<and> energy (interactPlot 0 0 rnd' now' initialState) = 95
       \<and> gold (interactPlot 0 0 rnd now (selectTool seed (interactPlot 0 0 rnd' now' initialState))) = 480
       \<and> energy (interactPlot 0 0 rnd now (selectTool seed (interactPlot 0 0 rnd' now' initialState))) = 93
       \<and> crops (interactPlot 0 0 rnd now (selectTool seed (interactPlot 0 0 rnd' now' initialState)))
           = [\<lparr> crop_id = new_crop_id 0 0 now, crop_x = 0, crop_z = 0,
                crop_type = types ! rnd, stage = 0, plantedDay = 1 \<rparr>]"
proof -
  have eq: "interactPlot x z rnd now s =
           (if plotKey x z \<in> tiledPlots s
               \<and> \<not> (\<exists>c \<in> set (crops s). crop_x c = x \<and> crop_z c = z)
               \<and> 20 \<le> gold s \<and> 2 \<le> energy s
            then s\<lparr> crops := crops s @ [\<lparr> crop_id = new_crop_id x z now, crop_x = x, crop_z = z,
                                         crop_type = types ! rnd, stage = 0, plantedDay = day s \<rparr>],
                    gold := gold s - 20, energy := energy s - 2 \<rparr>
            else s)"
    using assms by (simp add: handlePlotClick_unfold find_None_iff split: option.split)
  have neq: "s\<lparr> crops := C, gold := gold s - 20, energy := E \<rparr> \<noteq> s" for C E
  proof
    assume "s\<lparr> crops := C, gold := gold s - 20, energy := E \<rparr> = s"
    then have "gold (s\<lparr> crops := C, gold := gold s - 20, energy := E \<rparr>) = gold s" by simp
    then show False by simp
  qed
  have changed: "(interactPlot x z rnd now s \<noteq> s) =
           (plotKey x z \<in> tiledPlots s
               \<and> \<not> (\<exists>c \<in> set (crops s). crop_x c = x \<and> crop_z c = z)
               \<and> 20 \<le> gold s \<and> 2 \<le> energy s)"
    by (simp only: eq) (simp add: neq)
  have s1: "interactPlot 0 0 rnd' now' initialState
      = initialState\<lparr> tiledPlots := {plotKey 0 0}, energy := 95 \<rparr>"
    by (simp add: handlePlotClick_unfold initialState_def)
  have s2: "interactPlot 0 0 rnd now (selectTool seed (interactPlot 0 0 rnd' now' initialState))
      = initialState\<lparr> tiledPlots := {plotKey 0 0}, selectedTool := seed,
           crops := [\<lparr> crop_id = new_crop_id 0 0 now, crop_x = 0, crop_z = 0,
                crop_type = types ! rnd, stage = 0, plantedDay = 1 \<rparr>],
           gold := 480, energy := 93 \<rparr>"
    by (simp add: s1 selectTool_def handlePlotClick_unfold) (simp add: initialState_def)
  have e1: "energy (interactPlot 0 0 rnd' now' initialState) = 95" by (simp add: s1)
  have e2: "gold (interactPlot 0 0 rnd now (selectTool seed (interactPlot 0 0 rnd' now' initialState))) = 480"
    "energy (interactPlot 0 0 rnd now (selectTool seed (interactPlot 0 0 rnd' now' initialState))) = 93"
    "crops (interactPlot 0 0 rnd now (selectTool seed (interactPlot 0 0 rnd' now' initialState)))
           = [\<lparr> crop_id = new_crop_id 0 0 now, crop_x = 0, crop_z = 0,
                crop_type = types ! rnd, stage = 0, plantedDay = 1 \<rparr>]"
    by (simp_all add: s2)
  from eq changed e1 e2 show ?thesis by (intro conjI)
qed

theorem plant_seed_witness:
  "interactPlot 0 0 1 7 (run [PlotClick 0 0 1 7, SelectTool seed] initialState)
     = \<lparr> day = 1, season = Some Spring, gold = 480, energy = 93, selectedTool = seed,
         crops = [\<lparr> crop_id = new_crop_id 0 0 7, crop_x = 0, crop_z = 0, crop_type = tomato,
                    stage = 0, plantedDay = 1 \<rparr>],
         tiledPlots = {plotKey 0 0} \<rparr>
   \<and> interactPlot 0 0 1 7 (run [PlotClick 0 0 1 7, SelectTool seed] initialState)
       \<noteq> run [PlotClick 0 0 1 7, SelectTool seed] initialState"
proof -
  have s: "run [PlotClick 0 0 1 7, SelectTool seed] initialState
      = \<lparr> day = 1, season = Some Spring, gold = 500, energy = 95, selectedTool = seed,
          crops = [], tiledPlots = {plotKey 0 0} \<rparr>"
    by (simp add: run_simps)
  have h: "selectedTool (run [PlotClick 0 0 1 7, SelectTool seed] initialState) = seed"
    by (simp only: s) (simp)
  note t = plant_seed [OF h, of 0 0 1 7]
  from t [THEN conjunct1]
  have 1: "interactPlot 0 0 1 7 (run [PlotClick 0 0 1 7, SelectTool seed] initialState)
     = \<lparr> day = 1, season = Some Spring, gold = 480, energy = 93, selectedTool = seed,
         crops = [\<lparr> crop_id = new_crop_id 0 0 7, crop_x = 0, crop_z = 0, crop_type = tomato,
                    stage = 0, plantedDay = 1 \<rparr>],
         tiledPlots = {plotKey 0 0} \<rparr>"
    by (simp only: s) (simp add: types_def)
  from t [THEN conjunct2, THEN conjunct1]
  have 2: "interactPlot 0 0 1 7 (run [PlotClick 0 0 1 7, SelectTool seed] initialState)
       \<noteq> run [PlotClick 0 0 1 7, SelectTool seed] initialState"
    by (simp only: s) (simp)
  from 1 2 show ?thesis by (intro conjI)
qed

text \<open>
  Claim C5. In a state reached from the initial one, with the watering can selected and
  \<open>c\<close> a crop of the collection: clicking the crop, or clicking its plot, changes the state
  exactly when the crop's stage is below 3 and energy is at least 3. The crop then moves to
  stage \<open>min (stage + 1) 3\<close>, which is \<open>stage + 1\<close>, energy drops by 3, and every
  other crop stays as it is. At stage 3 both clicks change nothing, and a click on a plot
  that holds no crop changes nothing.
\<close>

theorem water_crop_action:
  assumes "s = run ops initialState" and "selectedTool s = water" and "c \<in> set (crops s)"
  shows "interactCrop c s =
           (if stage c < 3 \<and> 3 \<le> energy s
            then s\<lparr> crops := map (\<lambda>c'. if c' = c then c'\<lparr> stage := min (stage c' + 1) 3 \<rparr> else c')
                                  (crops s),
                    energy := energy s - 3 \<rparr>
            else s)
       \<and> interactPlot (crop_x c) (crop_z c) rnd now s =
           (if stage c < 3 \<and> 3 \<le> energy s
            then s\<lparr> crops := map (\<lambda>c'. if c' = c then c'\<lparr> stage := min (stage c' + 1) 3 \<rparr> else c')
                                  (crops s),
                    energy := energy s - 3 \<rparr>
            else s)
       \<and> (interactCrop c s \<noteq> s) = (stage c < 3 \<and> 3 \<le> energy s)
       \<and> (interactPlot (crop_x c) (crop_z c) rnd now s \<noteq> s) = (stage c < 3 \<and> 3 \<le> energy s)
       \<and> (stage c < 3 \<longrightarrow> min (stage c + 1) 3 = stage c + 1)
       \<and> (stage c = 3 \<longrightarrow> interactCrop c s = s \<and> interactPlot (crop_x c) (crop_z c) rnd now s = s)
       \<and> (\<not> (\<exists>c' \<in> set (crops s). crop_x c' = x \<and> crop_z c' = z) \<longrightarrow>
            interactPlot x z rnd now s = s)"
proof -
  from assms(1) have inv: "farm_inv s" by (simp add: farm_inv_reachable)
  have a: "interactCrop c s =
           (if stage c < 3 \<and> 3 \<le> energy s
            then s\<lparr> crops := map (\<lambda>c'. if c' = c then c'\<lparr> stage := min (stage c' + 1) 3 \<rparr> else c')
                                  (crops s),
                    energy := energy s - 3 \<rparr>
            else s)"
    using assms(2) by (simp add: interactCrop_unfold water_unique [OF inv assms(3)])
  have b: "interactPlot (crop_x c) (crop_z c) rnd now s =
           (if stage c < 3 \<and> 3 \<le> energy s
            then s\<lparr> crops := map (\<lambda>c'. if c' = c then c'\<lparr> stage := min (stage c' + 1) 3 \<rparr> else c')
                                  (crops s),
                    energy := energy s - 3 \<rparr>
            else s)"
    using assms(2)
    by (simp add: handlePlotClick_unfold farm_inv_find [OF inv assms(3)]
          water_unique [OF inv assms(3)])
  have c: "(interactCrop c s \<noteq> s) = (stage c < 3 \<and> 3 \<le> energy s)"
    by (simp only: a) (simp add: energy_changed)
  have d: "(interactPlot (crop_x c) (crop_z c) rnd now s \<noteq> s) = (stage c < 3 \<and> 3 \<le> energy s)"
    by (simp only: b) (simp add: energy_changed)
  have e: "stage c < 3 \<longrightarrow> min (stage c + 1) 3 = stage c + 1" by simp
  have f: "stage c = 3 \<longrightarrow> interactCrop c s = s \<and> interactPlot (crop_x c) (crop_z c) rnd now s = s"
    by (simp add: a b)
  have g: "\<not> (\<exists>c' \<in> set (crops s). crop_x c' = x \<and> crop_z c' = z) \<longrightarrow>
            interactPlot x z rnd now s = s"
  proof
    assume "\<not> (\<exists>c' \<in> set (crops s). crop_x c' = x \<and> crop_z c' = z)"
    then have "find (\<lambda>c'. crop_x c' = x \<and> crop_z c' = z) (crops s) = None"
      by (simp add: find_None_iff)
    with assms(2) show "interactPlot x z rnd now s = s"
      by (simp add: handlePlotClick_unfold)
  qed
  from a b c d e f g show ?thesis by (intro conjI)
qed

theorem water_crop_action_witness:
  "interactCrop \<lparr> crop_id = new_crop_id 0 0 7, crop_x = 0, crop_z = 0, crop_type = tomato,
                  stage = 0, plantedDay = 1 \<rparr>
     (run [PlotClick 0 0 1 7, SelectTool seed, PlotClick 0 0 1 7, SelectTool water] initialState)
     = \<lparr> day = 1, season = Some Spring, gold = 480, energy = 90, selectedTool = water,
         crops = [\<lparr> crop_id = new_crop_id 0 0 7, crop_x = 0, crop_z = 0, crop_type = tomato,
                    stage = 1, plantedDay = 1 \<rparr>],
         tiledPlots = {plotKey 0 0} \<rparr>
   \<and> interactPlot 3 4 1 7
       (run [PlotClick 0 0 1 7, SelectTool seed, PlotClick 0 0 1 7, SelectTool water] initialState)
     = run [PlotClick 0 0 1 7, SelectTool seed, PlotClick 0 0 1 7, SelectTool water] initialState
   \<and> interactCrop \<lparr> crop_id = new_crop_id 0 0 7, crop_x = 0, crop_z = 0, crop_type = tomato,
                  stage = 3, plantedDay = 1 \<rparr>
     (run [PlotClick 0 0 1 7, SelectTool seed, PlotClick 0 0 1 7, SelectTool water,
           PlotClick 0 0 1 7, PlotClick 0 0 1 7, PlotClick 0 0 1 7] initialState)
     = run [PlotClick 0 0 1 7, SelectTool seed, PlotClick 0 0 1 7, SelectTool water,
           PlotClick 0 0 1 7, PlotClick 0 0 1 7, PlotClick 0 0 1 7] initialState"
proof -
  let ?c = "\<lparr> crop_id = new_crop_id 0 0 7, crop_x = 0, crop_z = 0, crop_type = tomato,
                  stage = 0, plantedDay = 1 \<rparr>"
  let ?ops = "[PlotClick 0 0 1 7, SelectTool seed, PlotClick 0 0 1 7, SelectTool water]"
  have h: "selectedTool (run ?ops initialState) = water" "?c \<in> set (crops (run ?ops initialState))"
    by (simp_all only: sown_state) (simp_all)
  note t = water_crop_action [OF refl h, of 1 7 3 4]
  from t [THEN conjunct1]
  have 1: "interactCrop ?c (run ?ops initialState)
     = \<lparr> day = 1, season = Some Spring, gold = 480, energy = 90, selectedTool = water,
         crops = [\<lparr> crop_id = new_crop_id 0 0 7, crop_x = 0, crop_z = 0, crop_type = tomato,
                    stage = 1, plantedDay = 1 \<rparr>],
         tiledPlots = {plotKey 0 0} \<rparr>"
    by (simp only: sown_state) (simp)
  from t [THEN conjunct2, THEN conjunct2, THEN conjunct2, THEN conjunct2, THEN conjunct2,
          THEN conjunct2]
  have 2: "interactPlot 3 4 1 7 (run ?ops initialState) = run ?ops initialState"
    by (simp only: sown_state) (simp)
  let ?r = "\<lparr> crop_id = new_crop_id 0 0 7, crop_x = 0, crop_z = 0, crop_type = tomato,
                  stage = 3, plantedDay = 1 \<rparr>"
  let ?ops3 = "[PlotClick 0 0 1 7, SelectTool seed, PlotClick 0 0 1 7, SelectTool water,
           PlotClick 0 0 1 7, PlotClick 0 0 1 7, PlotClick 0 0 1 7]"
  have s3: "run ?ops3 initialState
      = \<lparr> day = 1, season = Some Spring, gold = 480, energy = 84, selectedTool = water,
          crops = [?r], tiledPlots = {plotKey 0 0} \<rparr>"
    by (simp add: run_simps)
  have h3: "selectedTool (run ?ops3 initialState) = water" "?r \<in> set (crops (run ?ops3 initialState))"
    by (simp_all only: s3) (simp_all)
  from water_crop_action [OF refl h3, of 1 7 3 4, THEN conjunct2, THEN conjunct2, THEN conjunct2,
          THEN conjunct2, THEN conjunct2, THEN conjunct1]
  have 3: "interactCrop ?r (run ?ops3 initialState) = run ?ops3 initialState"
    by simp
  from 1 2 3 show ?thesis by (intro conjI)
qed

text \<open>
  Claim C6. In a state reached from the initial one, with the harvest tool selected and
  \<open>c\<close> a crop of the collection: clicking the crop changes the state exactly when its
  stage is 3. The crop then leaves the collection and gold grows by the price of its type
  (carrot 35, tomato 60, corn 50, turnip 40; a ready tomato adds 60). A crop below stage 3
  is left alone, and so is everything else.
\<close>

theorem harvest_crop:
  assumes "s = run ops initialState" and "selectedTool s = harvest" and "c \<in> set (crops s)"
  shows "interactCrop c s =
           (if stage c = 3
            then s\<lparr> crops := filter (\<lambda>c'. c' \<noteq> c) (crops s),
                    gold := gold s + CROP_PRICES (crop_type c) \<rparr>
            else s)
       \<and> (interactCrop c s \<noteq> s) = (stage c = 3)
       \<and> (stage c = 3 \<longrightarrow> c \<notin> set (crops (interactCrop c s)))
       \<and> CROP_PRICES carrot = 35 \<and> CROP_PRICES tomato = 60
       \<and> CROP_PRICES corn = 50 \<and> CROP_PRICES turnip = 40
       \<and> (stage c = 3 \<and> crop_type c = tomato \<longrightarrow> gold (interactCrop c s) = gold s + 60)
       \<and> (stage c < 3 \<longrightarrow> interactCrop c s = s)"
proof -
  from assms(1) have inv: "farm_inv s" by (simp add: farm_inv_reachable)
  have a: "interactCrop c s =
           (if stage c = 3
            then s\<lparr> crops := filter (\<lambda>c'. c' \<noteq> c) (crops s),
                    gold := gold s + CROP_PRICES (crop_type c) \<rparr>
            else s)"
    using assms(2) by (simp add: interactCrop_unfold harvest_unique [OF inv assms(3)])
  have b: "(interactCrop c s \<noteq> s) = (stage c = 3)"
    by (simp only: a) (simp add: gold_changed price_pos)
  have c: "stage c = 3 \<longrightarrow> c \<notin> set (crops (interactCrop c s))"
    by (simp add: a)
  have d: "stage c = 3 \<and> crop_type c = tomato \<longrightarrow> gold (interactCrop c s) = gold s + 60"
    by (simp add: a)
  have e: "stage c < 3 \<longrightarrow> interactCrop c s = s"
    by (simp add: a)
  from a b c d e show ?thesis by simp
qed

theorem harvest_crop_witness:
  "interactCrop \<lparr> crop_id = new_crop_id 0 0 7, crop_x = 0, crop_z = 0, crop_type = tomato,
                  stage = 3, plantedDay = 1 \<rparr>
     (run [PlotClick 0 0 1 7, SelectTool seed, PlotClick 0 0 1 7, SelectTool water,
           PlotClick 0 0 1 7, PlotClick 0 0 1 7, PlotClick 0 0 1 7, SelectTool harvest] initialState)
     = \<lparr> day = 1, season = Some Spring, gold = 540, energy = 84, selectedTool = harvest,
         crops = [], tiledPlots = {plotKey 0 0} \<rparr>
   \<and> interactCrop \<lparr> crop_id = new_crop_id 0 1 7, crop_x = 0, crop_z = 1, crop_type = carrot,
                  stage = 0, plantedDay = 1 \<rparr>
     (run [PlotClick 0 0 1 7, PlotClick 0 1 1 7, PlotClick 0 2 1 7, PlotClick 0 3 1 7,
        PlotClick 0 4 1 7, PlotClick 0 5 1 7, PlotClick 0 6 1 7, PlotClick 1 0 1 7,
        PlotClick 1 1 1 7, PlotClick 1 2 1 7, PlotClick 1 3 1 7, PlotClick 1 4 1 7,
        PlotClick 1 5 1 7, PlotClick 1 6 1 7, PlotClick 2 0 1 7, PlotClick 2 1 1 7,
        PlotClick 2 2 1 7, SelectTool seed, PlotClick 0 0 1 7, PlotClick 0 1 0 7, PlotClick 0 2 0 7,
        SelectTool water, PlotClick 0 0 1 7, PlotClick 0 0 1 7, PlotClick 0 0 1 7,
        SelectTool harvest] initialState)
     = run [PlotClick 0 0 1 7, PlotClick 0 1 1 7, PlotClick 0 2 1 7, PlotClick 0 3 1 7,
        PlotClick 0 4 1 7, PlotClick 0 5 1 7, PlotClick 0 6 1 7, PlotClick 1 0 1 7,
        PlotClick 1 1 1 7, PlotClick 1 2 1 7, PlotClick 1 3 1 7, PlotClick 1 4 1 7,
        PlotClick 1 5 1 7, PlotClick 1 6 1 7, PlotClick 2 0 1 7, PlotClick 2 1 1 7,
        PlotClick 2 2 1 7, SelectTool seed, PlotClick 0 0 1 7, PlotClick 0 1 0 7, PlotClick 0 2 0 7,
        SelectTool water, PlotClick 0 0 1 7, PlotClick 0 0 1 7, PlotClick 0 0 1 7,
        SelectTool harvest] initialState"
proof -
  let ?r = "\<lparr> crop_id = new_crop_id 0 0 7, crop_x = 0, crop_z = 0, crop_type = tomato,
                  stage = 3, plantedDay = 1 \<rparr>"
  let ?ops = "[PlotClick 0 0 1 7, SelectTool seed, PlotClick 0 0 1 7, SelectTool water,
           PlotClick 0 0 1 7, PlotClick 0 0 1 7, PlotClick 0 0 1 7, SelectTool harvest]"
  have h: "selectedTool (run ?ops initialState) = harvest" "?r \<in> set (crops (run ?ops initialState))"
    by (simp_all only: ripe_state) (simp_all)
  from harvest_crop [OF refl h, THEN conjunct1]
  have 1: "interactCrop ?r (run ?ops initialState)
     = \<lparr> day = 1, season = Some Spring, gold = 540, energy = 84, selectedTool = harvest,
         crops = [], tiledPlots = {plotKey 0 0} \<rparr>"
    by (simp only: ripe_state) (simp)
  let ?g = "\<lparr> crop_id = new_crop_id 0 1 7, crop_x = 0, crop_z = 1, crop_type = carrot,
                  stage = 0, plantedDay = 1 \<rparr>"
  let ?ops0 = "[PlotClick 0 0 1 7, PlotClick 0 1 1 7, PlotClick 0 2 1 7, PlotClick 0 3 1 7,
        PlotClick 0 4 1 7, PlotClick 0 5 1 7, PlotClick 0 6 1 7, PlotClick 1 0 1 7,
        PlotClick 1 1 1 7, PlotClick 1 2 1 7, PlotClick 1 3 1 7, PlotClick 1 4 1 7,
        PlotClick 1 5 1 7, PlotClick 1 6 1 7, PlotClick 2 0 1 7, PlotClick 2 1 1 7,
        PlotClick 2 2 1 7, SelectTool seed, PlotClick 0 0 1 7, PlotClick 0 1 0 7, PlotClick 0 2 0 7,
        SelectTool water, PlotClick 0 0 1 7, PlotClick 0 0 1 7, PlotClick 0 0 1 7,
        SelectTool harvest]"
  have h0: "selectedTool (run ?ops0 initialState) = harvest"
    "?g \<in> set (crops (run ?ops0 initialState))"
    by (simp_all only: spent_state) (simp_all)
  from harvest_crop [OF refl h0, THEN conjunct2, THEN conjunct1]
  have 2: "interactCrop ?g (run ?ops0 initialState) = run ?ops0 initialState"
    by simp
  from 1 2 show ?thesis by (intro conjI)
qed

text \<open>
  Claim C7, as stated, fails: the ids given to crops along a run are not always pairwise
  different. The run below tills plot \<open>(0, 0)\<close>, plants it, waters the crop three times,
  harvests it (the crop clicked is the one in the collection) and plants the plot again; the
  clock reads 1700000000000 at both plantings (only a planting reads the clock), and both
  crops get the id \<open>0-0-1700000000000\<close>.
\<close>

theorem crop_ids_counterexample:
  "\<lparr> crop_id = new_crop_id 0 0 1700000000000, crop_x = 0, crop_z = 0,
      crop_type = tomato, stage = 3, plantedDay = 1 \<rparr>
     \<in> set (crops (run
      [PlotClick 0 0 1 1700000000000, SelectTool seed, PlotClick 0 0 1 1700000000000,
       SelectTool water, PlotClick 0 0 1 1700000000000, PlotClick 0 0 1 1700000000000,
       PlotClick 0 0 1 1700000000000, SelectTool harvest] initialState))
   \<and> \<not> distinct (assigned_ids
      [PlotClick 0 0 1 1700000000000, SelectTool seed, PlotClick 0 0 1 1700000000000,
       SelectTool water, PlotClick 0 0 1 1700000000000, PlotClick 0 0 1 1700000000000,
       PlotClick 0 0 1 1700000000000, SelectTool harvest,
       CropClick \<lparr> crop_id = new_crop_id 0 0 1700000000000, crop_x = 0, crop_z = 0,
                   crop_type = tomato, stage = 3, plantedDay = 1 \<rparr>,
       SelectTool seed, PlotClick 0 0 1 1700000000000] initialState)"
  by (simp add: planted_def run_simps)

text \<open>
  Claim C7, amended. The crops that are in the collection at the same time always have
  pairwise different ids, whatever the clock reads, also when they were planted in the same
  instant. Over a whole run, all ids given at planting are pairwise different provided no
  plot is planted twice at the same clock value.
\<close>

theorem live_crop_ids_distinct:
  "distinct (map crop_id (crops (run ops initialState)))
   \<and> (distinct (plant_stamps ops initialState) \<longrightarrow> distinct (assigned_ids ops initialState))"
  using farm_inv_distinct_ids [OF farm_inv_reachable [of ops]]
  by (simp add: assigned_ids_stamps distinct_map inj_on_subset [OF new_crop_id_inj_on])

theorem live_crop_ids_distinct_witness:
  "distinct (assigned_ids
      [PlotClick 0 0 1 7, SelectTool seed, PlotClick 0 0 1 7,
       SelectTool water, PlotClick 0 0 1 7, PlotClick 0 0 1 7, PlotClick 0 0 1 7,
       SelectTool harvest,
       CropClick \<lparr> crop_id = new_crop_id 0 0 7, crop_x = 0, crop_z = 0,
                   crop_type = tomato, stage = 3, plantedDay = 1 \<rparr>,
       SelectTool seed, PlotClick 0 0 1 8] initialState)
   \<and> distinct (map crop_id (crops (run
      [PlotClick 0 0 1 7, PlotClick 0 1 1 7, SelectTool seed, PlotClick 0 0 1 7,
       PlotClick 0 1 1 7] initialState)))"
proof -
  let ?ops = "[PlotClick 0 0 1 7, SelectTool seed, PlotClick 0 0 1 7,
       SelectTool water, PlotClick 0 0 1 7, PlotClick 0 0 1 7, PlotClick 0 0 1 7,
       SelectTool harvest,
       CropClick \<lparr> crop_id = new_crop_id 0 0 7, crop_x = 0, crop_z = 0,
                   crop_type = tomato, stage = 3, plantedDay = 1 \<rparr>,
       SelectTool seed, PlotClick 0 0 1 8]"
  have "plant_stamps ?ops initialState = [(0, 0, 7), (0, 0, 8)]"
    by (simp add: planted_def run_simps)
  then have "distinct (plant_stamps ?ops initialState)" by simp
  with live_crop_ids_distinct [of ?ops] have "distinct (assigned_ids ?ops initialState)"
    by blast
  with live_crop_ids_distinct [of "[PlotClick 0 0 1 7, PlotClick 0 1 1 7, SelectTool seed,
       PlotClick 0 0 1 7, PlotClick 0 1 1 7]"]
  show ?thesis by blast
qed

text \<open>
  Claim C8. In every state reached from the initial one no two crops share a coordinate, and
  every crop stands on a plot whose key is in the tilled set. A crop that an operation plants
  is planted on a plot that was tilled in the state the operation started from. No operation
  and no run removes a key from the tilled set.
\<close>

theorem one_crop_per_tilled_plot:
  "distinct (map (\<lambda>c. (crop_x c, crop_z c)) (crops (run ops initialState)))
   \<and> (\<forall>c \<in> set (crops (run ops initialState)).
         plotKey (crop_x c) (crop_z c) \<in> tiledPlots (run ops initialState))
   \<and> (\<forall>c \<in> set (planted op s). plotKey (crop_x c) (crop_z c) \<in> tiledPlots s)
   \<and> tiledPlots s \<subseteq> tiledPlots (step op s)
   \<and> tiledPlots s \<subseteq> tiledPlots (run ops' s)"
  using farm_inv_reachable [of ops] planted_on_tilled [of _ op s]
    tiledPlots_step [of s op] tiledPlots_run [of s ops']
  by (simp add: farm_inv_def)

theorem one_crop_per_tilled_plot_witness:
  "crops (run [PlotClick 0 0 1 7, SelectTool seed, PlotClick 0 0 1 7, SelectTool water] initialState)
     = [\<lparr> crop_id = new_crop_id 0 0 7, crop_x = 0, crop_z = 0, crop_type = tomato,
           stage = 0, plantedDay = 1 \<rparr>]
   \<and> plotKey 0 0 \<in> tiledPlots
       (run [PlotClick 0 0 1 7, SelectTool seed, PlotClick 0 0 1 7, SelectTool water] initialState)
   \<and> planted (PlotClick 0 0 1 7) (run [PlotClick 0 0 1 7, SelectTool seed] initialState)
     = [\<lparr> crop_id = new_crop_id 0 0 7, crop_x = 0, crop_z = 0, crop_type = tomato,
           stage = 0, plantedDay = 1 \<rparr>]
   \<and> plotKey 0 0 \<in> tiledPlots (run [PlotClick 0 0 1 7, SelectTool seed] initialState)
   \<and> {plotKey 0 0} \<subseteq> tiledPlots (step (PlotClick 0 1 1 7) (run [PlotClick 0 0 1 7] initialState))"
proof -
  let ?c = "\<lparr> crop_id = new_crop_id 0 0 7, crop_x = 0, crop_z = 0, crop_type = tomato,
           stage = 0, plantedDay = 1 \<rparr>"
  let ?ops = "[PlotClick 0 0 1 7, SelectTool seed, PlotClick 0 0 1 7, SelectTool water]"
  let ?s = "run [PlotClick 0 0 1 7, SelectTool seed] initialState"
  have 1: "crops (run ?ops initialState) = [?c]"
    by (simp only: sown_state) simp
  have 3: "planted (PlotClick 0 0 1 7) ?s = [?c]"
    by (simp add: planted_def run_simps)
  note t = one_crop_per_tilled_plot [of ?ops "PlotClick 0 0 1 7" ?s]
  from t [THEN conjunct2, THEN conjunct1] 1
  have 2: "plotKey 0 0 \<in> tiledPlots (run ?ops initialState)"
    by (simp only:) simp
  from t [THEN conjunct2, THEN conjunct2, THEN conjunct1] 3
  have 4: "plotKey 0 0 \<in> tiledPlots ?s"
    by (simp only:) simp
  have "tiledPlots (run [PlotClick 0 0 1 7] initialState) = {plotKey 0 0}"
    by (simp add: run_simps)
  with one_crop_per_tilled_plot [of "[]" "PlotClick 0 1 1 7" "run [PlotClick 0 0 1 7] initialState",
         THEN conjunct2, THEN conjunct2, THEN conjunct2, THEN conjunct1]
  have 5: "{plotKey 0 0} \<subseteq> tiledPlots (step (PlotClick 0 1 1 7) (run [PlotClick 0 0 1 7] initialState))"
    by (simp only:)
  from 1 2 3 4 5 show ?thesis by (intro conjI)
qed

text \<open>
  Claim C9. In a state reached from the initial one, with the watering can selected, a click
  on the plot \<open>(x, z)\<close> and a click on the crop standing at \<open>(x, z)\<close> give the same
  state, whether the watering happens or is refused.
\<close>

theorem water_entry_points_agree:
  assumes "s = run ops initialState" and "selectedTool s = water"
    and "c \<in> set (crops s)" and "crop_x c = x" and "crop_z c = z"
  shows "interactPlot x z rnd now s = interactCrop c s"
proof -
  from assms(1) have inv: "farm_inv s" by (simp add: farm_inv_reachable)
  from farm_inv_find [OF inv assms(3)] assms(4,5)
  have "find (\<lambda>c'. crop_x c' = x \<and> crop_z c' = z) (crops s) = Some c" by simp
  with assms(2) show ?thesis
    by (simp add: handlePlotClick_unfold interactCrop_unfold)
qed

theorem water_entry_points_agree_witness:
  "interactPlot 0 0 1 9
     (run [PlotClick 0 0 1 7, SelectTool seed, PlotClick 0 0 1 7, SelectTool water] initialState)
   = interactCrop \<lparr> crop_id = new_crop_id 0 0 7, crop_x = 0, crop_z = 0, crop_type = tomato,
                    stage = 0, plantedDay = 1 \<rparr>
     (run [PlotClick 0 0 1 7, SelectTool seed, PlotClick 0 0 1 7, SelectTool water] initialState)"
proof -
  let ?c = "\<lparr> crop_id = new_crop_id 0 0 7, crop_x = 0, crop_z = 0, crop_type = tomato,
           stage = 0, plantedDay = 1 \<rparr>"
  let ?ops = "[PlotClick 0 0 1 7, SelectTool seed, PlotClick 0 0 1 7, SelectTool water]"
  have h: "selectedTool (run ?ops initialState) = water" "?c \<in> set (crops (run ?ops initialState))"
    by (simp_all only: sown_state) simp_all
  have p: "crop_x ?c = 0" "crop_z ?c = 0" by simp_all
  from water_entry_points_agree [OF refl h p] show ?thesis .
qed

text \<open>
  Claim C10. With the harvest tool selected, a click on a crop never changes energy, day,
  season, the tilled plots or the selected tool. When the crop is at stage 3 the click adds
  the full price of its type to gold, whatever gold and energy are (energy may be 0); in a
  state reached from the initial one it removes that crop and no other. When the crop is not
  at stage 3 the state stays as it is.
\<close>

theorem harvest_frame:
  assumes "selectedTool s = harvest"
  shows "energy (interactCrop c s) = energy s
       \<and> day (interactCrop c s) = day s
       \<and> season (interactCrop c s) = season s
       \<and> tiledPlots (interactCrop c s) = tiledPlots s
       \<and> selectedTool (interactCrop c s) = selectedTool s
       \<and> (stage c = 3 \<longrightarrow> gold (interactCrop c s) = gold s + CROP_PRICES (crop_type c))
       \<and> (stage c = 3 \<and> s = run ops initialState \<and> c \<in> set (crops s) \<longrightarrow>
            crops (interactCrop c s) = filter (\<lambda>c'. c' \<noteq> c) (crops s))
       \<and> (stage c \<noteq> 3 \<longrightarrow> interactCrop c s = s)"
proof -
  have "crops (interactCrop c s) = filter (\<lambda>c'. c' \<noteq> c) (crops s)"
    if "stage c = 3" "s = run ops initialState" "c \<in> set (crops s)"
  proof -
    from that(2) have "farm_inv s" by (simp add: farm_inv_reachable)
    from harvest_unique [OF this that(3)] assms that(1) show ?thesis
      by (simp add: interactCrop_unfold)
  qed
  then have "stage c = 3 \<and> s = run ops initialState \<and> c \<in> set (crops s) \<longrightarrow>
            crops (interactCrop c s) = filter (\<lambda>c'. c' \<noteq> c) (crops s)"
    by blast
  moreover have "energy (interactCrop c s) = energy s" "day (interactCrop c s) = day s"
    "season (interactCrop c s) = season s" "tiledPlots (interactCrop c s) = tiledPlots s"
    "selectedTool (interactCrop c s) = selectedTool s"
    "stage c = 3 \<longrightarrow> gold (interactCrop c s) = gold s + CROP_PRICES (crop_type c)"
    "stage c \<noteq> 3 \<longrightarrow> interactCrop c s = s"
    using assms by (simp_all add: interactCrop_unfold)
  ultimately show ?thesis by (intro conjI)
qed

theorem harvest_frame_witness:
  "gold (interactCrop \<lparr> crop_id = new_crop_id 0 0 7, crop_x = 0, crop_z = 0, crop_type = tomato,
                        stage = 3, plantedDay = 1 \<rparr>
     (run [PlotClick 0 0 1 7, PlotClick 0 1 1 7, PlotClick 0 2 1 7, PlotClick 0 3 1 7,
        PlotClick 0 4 1 7, PlotClick 0 5 1 7, PlotClick 0 6 1 7, PlotClick 1 0 1 7,
        PlotClick 1 1 1 7, PlotClick 1 2 1 7, PlotClick 1 3 1 7, PlotClick 1 4 1 7,
        PlotClick 1 5 1 7, PlotClick 1 6 1 7, PlotClick 2 0 1 7, PlotClick 2 1 1 7,
        PlotClick 2 2 1 7, SelectTool seed, PlotClick 0 0 1 7, PlotClick 0 1 0 7, PlotClick 0 2 0 7,
        SelectTool water, PlotClick 0 0 1 7, PlotClick 0 0 1 7, PlotClick 0 0 1 7,
        SelectTool harvest] initialState)) = 500
   \<and> energy (interactCrop \<lparr> crop_id = new_crop_id 0 0 7, crop_x = 0, crop_z = 0, crop_type = tomato,
                        stage = 3, plantedDay = 1 \<rparr>
     (run [PlotClick 0 0 1 7, PlotClick 0 1 1 7, PlotClick 0 2 1 7, PlotClick 0 3 1 7,
        PlotClick 0 4 1 7, PlotClick 0 5 1 7, PlotClick 0 6 1 7, PlotClick 1 0 1 7,
        PlotClick 1 1 1 7, PlotClick 1 2 1 7, PlotClick 1 3 1 7, PlotClick 1 4 1 7,
        PlotClick 1 5 1 7, PlotClick 1 6 1 7, PlotClick 2 0 1 7, PlotClick 2 1 1 7,
        PlotClick 2 2 1 7, SelectTool seed, PlotClick 0 0 1 7, PlotClick 0 1 0 7, PlotClick 0 2 0 7,
        SelectTool water, PlotClick 0 0 1 7, PlotClick 0 0 1 7, PlotClick 0 0 1 7,
        SelectTool harvest] initialState)) = 0
   \<and> crops (interactCrop \<lparr> crop_id = new_crop_id 0 0 7, crop_x = 0, crop_z = 0, crop_type = tomato,
                        stage = 3, plantedDay = 1 \<rparr>
     (run [PlotClick 0 0 1 7, PlotClick 0 1 1 7, PlotClick 0 2 1 7, PlotClick 0 3 1 7,
        PlotClick 0 4 1 7, PlotClick 0 5 1 7, PlotClick 0 6 1 7, PlotClick 1 0 1 7,
        PlotClick 1 1 1 7, PlotClick 1 2 1 7, PlotClick 1 3 1 7, PlotClick 1 4 1 7,
        PlotClick 1 5 1 7, PlotClick 1 6 1 7, PlotClick 2 0 1 7, PlotClick 2 1 1 7,
        PlotClick 2 2 1 7, SelectTool seed, PlotClick 0 0 1 7, PlotClick 0 1 0 7, PlotClick 0 2 0 7,
        SelectTool water, PlotClick 0 0 1 7, PlotClick 0 0 1 7, PlotClick 0 0 1 7,
        SelectTool harvest] initialState))
     = [\<lparr> crop_id = new_crop_id 0 1 7, crop_x = 0, crop_z = 1, crop_type = carrot,
           stage = 0, plantedDay = 1 \<rparr>,
        \<lparr> crop_id = new_crop_id 0 2 7, crop_x = 0, crop_z = 2, crop_type = carrot,
           stage = 0, plantedDay = 1 \<rparr>]"
proof -
  let ?r = "\<lparr> crop_id = new_crop_id 0 0 7, crop_x = 0, crop_z = 0, crop_type = tomato,
                        stage = 3, plantedDay = 1 \<rparr>"
  let ?ops = "[PlotClick 0 0 1 7, PlotClick 0 1 1 7, PlotClick 0 2 1 7, PlotClick 0 3 1 7,
        PlotClick 0 4 1 7, PlotClick 0 5 1 7, PlotClick 0 6 1 7, PlotClick 1 0 1 7,
        PlotClick 1 1 1 7, PlotClick 1 2 1 7, PlotClick 1 3 1 7, PlotClick 1 4 1 7,
        PlotClick 1 5 1 7, PlotClick 1 6 1 7, PlotClick 2 0 1 7, PlotClick 2 1 1 7,
        PlotClick 2 2 1 7, SelectTool seed, PlotClick 0 0 1 7, PlotClick 0 1 0 7, PlotClick 0 2 0 7,
        SelectTool water, PlotClick 0 0 1 7, PlotClick 0 0 1 7, PlotClick 0 0 1 7,
        SelectTool harvest]"
  have h: "selectedTool (run ?ops initialState) = harvest"
    by (simp only: spent_state) simp
  have g: "gold (run ?ops initialState) = 440" "energy (run ?ops initialState) = 0"
    "stage ?r = 3" "?r \<in> set (crops (run ?ops initialState))"
    "filter (\<lambda>c'. c' \<noteq> ?r) (crops (run ?ops initialState))
      = [\<lparr> crop_id = new_crop_id 0 1 7, crop_x = 0, crop_z = 1, crop_type = carrot,
           stage = 0, plantedDay = 1 \<rparr>,
        \<lparr> crop_id = new_crop_id 0 2 7, crop_x = 0, crop_z = 2, crop_type = carrot,
           stage = 0, plantedDay = 1 \<rparr>]"
    by (simp_all only: spent_state) simp_all
  note t = harvest_frame [OF h, of ?r ?ops]
  from t g show ?thesis by simp
qed

end
